theory Spec2Isabelle
  imports Main
begin

section \<open>JavaScript values the sync engine handles\<close>

text \<open>
  A JavaScript number as the engine meets it in a \<open>timestamp\<close> and as the time value of
  a \<open>Date\<close>: an integral count of milliseconds since the epoch, or \<open>NaN\<close>
  (what \<open>Date.parse\<close> yields on text it cannot read, and the time value of an invalid
  \<open>Date\<close>).
\<close>

datatype number = NaN | Num int

text \<open>The relational operator \<open>a > b\<close>: false as soon as one side is \<open>NaN\<close>.\<close>

fun js_gt :: "number \<Rightarrow> number \<Rightarrow> bool" where
  "js_gt (Num a) (Num b) = (b < a)"
| "js_gt _ _ = False"

text \<open>
  A value of type \<open>any\<close>: what a parsed JSON response holds, plus \<open>undefined\<close>,
  the result of reading a property that is not there. JSON numbers are kept integral.
\<close>

datatype jsval =
    JUndefined
  | JNull
  | JBool bool
  | JNum int
  | JStr string
  | JArr "jsval list"
  | JObj "(string \<times> jsval) list"

text \<open>Exceptions the modelled code can raise; an Axios error carries the HTTP status
  of the response when there is one.\<close>

datatype error = TypeError | RangeError | AxiosError "nat option"

text \<open>Sequencing of computations that may throw: the first exception aborts the rest.\<close>

definition andThen :: "error + 'a \<Rightarrow> ('a \<Rightarrow> error + 'b) \<Rightarrow> error + 'b" where
  "andThen m f = (case m of Inl e \<Rightarrow> Inl e | Inr x \<Rightarrow> f x)"

text \<open>\<open>ToBoolean\<close>, as the operators \<open>||\<close> and \<open>?:\<close> apply it.\<close>

fun truthy :: "jsval \<Rightarrow> bool" where
  "truthy JUndefined = False"
| "truthy JNull = False"
| "truthy (JBool b) = b"
| "truthy (JNum n) = (n \<noteq> 0)"
| "truthy (JStr s) = (s \<noteq> [])"
| "truthy (JArr xs) = True"
| "truthy (JObj kvs) = True"

text \<open>
  Property read \<open>v.k\<close>. Reading a property of \<open>undefined\<close> or \<open>null\<close> throws a
  \<open>TypeError\<close>; an object yields the value stored under the key, or \<open>undefined\<close>; a
  primitive or an array yields \<open>undefined\<close> for every key the service reads (none of them
  is a built-in property).
\<close>

fun get :: "jsval \<Rightarrow> string \<Rightarrow> error + jsval" where
  "get JUndefined k = Inl TypeError"
| "get JNull k = Inl TypeError"
| "get (JObj kvs) k = Inr (case map_of kvs k of None \<Rightarrow> JUndefined | Some v \<Rightarrow> v)"
| "get v k = Inr JUndefined"

text \<open>\<open>a || b\<close>: the right operand is evaluated only when the left one is falsy.\<close>

definition js_or :: "error + jsval \<Rightarrow> error + jsval \<Rightarrow> error + jsval" where
  "js_or a b = andThen a (\<lambda>x. if truthy x then Inr x else b)"

text \<open>
  \<open>items.map(f)\<close>: on an array, \<open>f\<close> is applied to the elements in order and the first
  exception leaves the call; on anything else the method is missing and the call throws.
\<close>

fun mapE :: "('a \<Rightarrow> error + 'b) \<Rightarrow> 'a list \<Rightarrow> error + 'b list" where
  "mapE f [] = Inr []"
| "mapE f (x # xs) = andThen (f x) (\<lambda>y. andThen (mapE f xs) (\<lambda>ys. Inr (y # ys)))"

definition js_map :: "(jsval \<Rightarrow> error + 'b) \<Rightarrow> jsval \<Rightarrow> error + 'b list" where
  "js_map f v = (case v of JArr xs \<Rightarrow> mapE f xs | _ \<Rightarrow> Inl TypeError)"

subsection \<open>Dates\<close>

text \<open>
  The host's \<open>Date\<close>: \<open>dateParse\<close> is \<open>Date.parse(v)\<close> (the argument converted to a
  string and read, \<open>NaN\<close> when it is not a date), \<open>isoString\<close> is \<open>toISOString\<close> on
  a valid time value. How text outside the ISO format is read is left to the engine by
  the language standard, so the service is modelled over any host.
\<close>

record host =
  dateParse :: "jsval \<Rightarrow> number"
  isoString :: "int \<Rightarrow> string"

text \<open>\<open>TimeClip\<close>: a time value is at most 8.64e15 ms away from the epoch.\<close>

definition timeClip :: "int \<Rightarrow> number" where
  "timeClip t = (if \<bar>t\<bar> \<le> 8640000000000000 then Num t else NaN)"

text \<open>
  \<open>new Date(v)\<close>, as its time value: a string, array or object is parsed as text; any
  other value is converted to a number and clipped.
\<close>

fun newDate :: "host \<Rightarrow> jsval \<Rightarrow> number" where
  "newDate H JUndefined = NaN"
| "newDate H JNull = Num 0"
| "newDate H (JBool b) = Num (if b then 1 else 0)"
| "newDate H (JNum n) = timeClip n"
| "newDate H v = dateParse H v"

text \<open>\<open>d.toISOString()\<close> throws a \<open>RangeError\<close> on an invalid date.\<close>

fun toISOString :: "host \<Rightarrow> number \<Rightarrow> error + string" where
  "toISOString H NaN = Inl RangeError"
| "toISOString H (Num t) = Inr (isoString H t)"

subsection \<open>A reference host\<close>

text \<open>
  A concrete \<open>Date\<close> for running the model: it reads the complete UTC form of the ISO
  format, \<open>YYYY-MM-DDTHH:mm:ss.sssZ\<close> with the milliseconds optional, on which all
  engines agree, and answers \<open>NaN\<close> on everything else; it prints a time value the way
  \<open>toISOString\<close> is specified. Days are counted in the proleptic Gregorian calendar.
\<close>

definition days_from_civil :: "int \<Rightarrow> int \<Rightarrow> int \<Rightarrow> int" where
  "days_from_civil y m d =
     (let y' = (if m \<le> 2 then y - 1 else y);
          era = y' div 400;
          yoe = y' - era * 400;
          doy = (153 * (if 2 < m then m - 3 else m + 9) + 2) div 5 + d - 1;
          doe = yoe * 365 + yoe div 4 - yoe div 100 + doy
      in era * 146097 + doe - 719468)"

definition civil_from_days :: "int \<Rightarrow> int \<times> int \<times> int" where
  "civil_from_days z =
     (let z' = z + 719468;
          era = z' div 146097;
          doe = z' - era * 146097;
          yoe = (doe - doe div 1460 + doe div 36524 - doe div 146096) div 365;
          doy = doe - (365 * yoe + yoe div 4 - yoe div 100);
          mp = (5 * doy + 2) div 153;
          d = doy - (153 * mp + 2) div 5 + 1;
          m = (if mp < 10 then mp + 3 else mp - 9);
          y = yoe + era * 400
      in (if m \<le> 2 then y + 1 else y, m, d))"

definition days_in_month :: "int \<Rightarrow> int \<Rightarrow> int" where
  "days_in_month y m =
     (if m = 2 then (if y mod 4 = 0 \<and> (y mod 100 \<noteq> 0 \<or> y mod 400 = 0) then 29 else 28)
      else if m = 4 \<or> m = 6 \<or> m = 9 \<or> m = 11 then 30 else 31)"

text \<open>Exactly \<open>n\<close> decimal digits at the head of the text, and one expected character.\<close>

fun digits :: "nat \<Rightarrow> string \<Rightarrow> (int \<times> string) option" where
  "digits 0 s = Some (0, s)"
| "digits (Suc n) [] = None"
| "digits (Suc n) (c # s) =
     (if 48 \<le> (of_char c :: nat) \<and> (of_char c :: nat) \<le> 57
      then map_option (\<lambda>(v, r). ((int (of_char c) - 48) * 10 ^ n + v, r)) (digits n s)
      else None)"

fun expect :: "char \<Rightarrow> string \<Rightarrow> string option" where
  "expect c [] = None"
| "expect c (x # s) = (if x = c then Some s else None)"

definition iso_parse :: "string \<Rightarrow> number" where
  "iso_parse s =
     (case
        Option.bind (digits 4 s) (\<lambda>(y, s).
        Option.bind (expect CHR ''-'' s) (\<lambda>s.
        Option.bind (digits 2 s) (\<lambda>(m, s).
        Option.bind (expect CHR ''-'' s) (\<lambda>s.
        Option.bind (digits 2 s) (\<lambda>(d, s).
        Option.bind (expect CHR ''T'' s) (\<lambda>s.
        Option.bind (digits 2 s) (\<lambda>(h, s).
        Option.bind (expect CHR '':'' s) (\<lambda>s.
        Option.bind (digits 2 s) (\<lambda>(mi, s).
        Option.bind (expect CHR '':'' s) (\<lambda>s.
        Option.bind (digits 2 s) (\<lambda>(sec, s).
        Option.bind (case s of CHR ''.'' # r \<Rightarrow> digits 3 r | _ \<Rightarrow> Some (0, s)) (\<lambda>(ms, s).
          if s = ''Z'' \<and> 1 \<le> m \<and> m \<le> 12 \<and> 1 \<le> d \<and> d \<le> days_in_month y m
             \<and> h \<le> 23 \<and> mi \<le> 59 \<and> sec \<le> 59
          then Some (days_from_civil y m d * 86400000 + h * 3600000 + mi * 60000
                       + sec * 1000 + ms)
          else None))))))))))))
      of Some t \<Rightarrow> Num t | None \<Rightarrow> NaN)"

fun pad :: "nat \<Rightarrow> int \<Rightarrow> string" where
  "pad 0 v = []"
| "pad (Suc n) v = pad n (v div 10) @ [''0123456789'' ! nat (v mod 10)]"

definition iso_format :: "int \<Rightarrow> string" where
  "iso_format t =
     (let day = t div 86400000;
          ms = t mod 86400000;
          (y, m, d) = civil_from_days day
      in (if 0 \<le> y \<and> y \<le> 9999 then pad 4 y
          else (if y < 0 then ''-'' else ''+'') @ pad 6 \<bar>y\<bar>)
         @ ''-'' @ pad 2 m @ ''-'' @ pad 2 d @ ''T'' @ pad 2 (ms div 3600000)
         @ '':'' @ pad 2 (ms mod 3600000 div 60000)
         @ '':'' @ pad 2 (ms mod 60000 div 1000)
         @ ''.'' @ pad 3 (ms mod 1000) @ ''Z'')"

definition es_host :: host where
  "es_host =
     \<lparr>dateParse = (\<lambda>v. case v of JStr s \<Rightarrow> iso_parse s | _ \<Rightarrow> NaN),
      isoString = iso_format\<rparr>"

section \<open>Data model\<close>

text \<open>
  Modelled from the spec: the declarations of \<open>CalendarEvent\<close> and
  \<open>CalendarSyncConfig\<close> (the module \<open>../types\<close>) are not among the sources. The
  fields are those of the specification's data model, which are the ones
  \<open>calendarSync.ts\<close> reads and writes. The normalizers copy \<open>id\<close> (the field \<open>id'\<close>
  here), \<open>title\<close> and \<open>description\<close> from an untyped payload, so at run time these
  hold whatever the payload held; \<open>startTime\<close> and \<open>endTime\<close> are \<open>Date\<close> objects,
  kept as their time values; \<open>sourceCalendar\<close> and the strategy are tags, kept as
  strings so that an unforeseen tag is a value too.
\<close>

record CalendarEvent =
  id' :: jsval
  title :: jsval
  startTime :: number
  endTime :: number
  description :: jsval
  sourceCalendar :: string
  timestamp :: number

text \<open>Modelled from the spec: \<open>CalendarSyncConfig\<close>, with the fields the service reads
  and the quick-start guide sets.\<close>

record CalendarSyncConfig =
  provider :: string
  apiEndpoint :: string
  accessToken :: string
  refreshToken :: string
  conflictResolution :: string

section \<open>The calendar sync service\<close>

text \<open>
  A \<open>CalendarSyncService\<close> together with the part of its environment its methods
  act on: the instance fields \<open>config\<close> and \<open>syncInterval\<close>, the host's table of
  running interval timers (handle to period in ms) with the next handle \<open>setInterval\<close>
  hands out, and two counters recording how many \<open>axios.get\<close> requests and how many
  \<open>refreshAccessToken\<close> calls were made. A timer handle is an object, hence truthy.
\<close>

type_synonym handle = nat

record state =
  config :: CalendarSyncConfig
  syncInterval :: "handle option"
  timers :: "handle \<rightharpoonup> nat"
  nextHandle :: handle
  requests :: nat
  refreshes :: nat

text \<open>The constructor: \<open>syncInterval\<close> starts as \<open>null\<close>.\<close>

definition new_service :: "CalendarSyncConfig \<Rightarrow> state" where
  "new_service cfg =
     \<lparr>config = cfg, syncInterval = None, timers = Map.empty, nextHandle = 0,
      requests = 0, refreshes = 0\<rparr>"

subsection \<open>Provider dispatch\<close>

text \<open>
  The three dispatch tables are object literals keyed by provider tag, and a lookup is
  modelled by \<open>map_of\<close> on the entries written in the literal. This is the lookup of
  the source for every tag that is an entry and for every tag that names no member
  inherited from \<open>Object.prototype\<close>. For the twelve inherited names
  (\<open>constructor\<close>, \<open>toString\<close>, \<open>__proto__\<close>, ...; \<open>inheritedName\<close> below) the
  source finds the inherited member where the model finds nothing, so the model does
  not cover these tags, and every statement about a tag without an entry excludes them
  by hypothesis.
\<close>

definition endpoints :: "(string \<times> string) list" where
  "endpoints =
     [(''google'', ''https://www.googleapis.com/calendar/v3/calendars/primary/events''),
      (''apple'', ''https://caldav.icloud.com''),
      (''outlook'', ''https://graph.microsoft.com/v1.0/me/calendar/events'')]"

text \<open>\<open>getProviderEndpoint\<close>: \<open>endpoints[provider] || apiEndpoint\<close>.\<close>

definition getProviderEndpoint :: "CalendarSyncConfig \<Rightarrow> string" where
  "getProviderEndpoint cfg =
     (case map_of endpoints (provider cfg) of
        Some e \<Rightarrow> if e \<noteq> [] then e else apiEndpoint cfg
      | None \<Rightarrow> apiEndpoint cfg)"

text \<open>The three normalizers, each \<open>items.map(item => ({...}))\<close>; the arrow function
  is named \<open>*_item\<close>, and the fields are evaluated in the order of the object literal.\<close>

definition google_item :: "host \<Rightarrow> jsval \<Rightarrow> error + CalendarEvent" where
  "google_item H item =
     andThen (get item ''id'') (\<lambda>i.
     andThen (get item ''summary'') (\<lambda>t.
     andThen (js_or (andThen (get item ''start'') (\<lambda>s. get s ''dateTime''))
                    (andThen (get item ''start'') (\<lambda>s. get s ''date''))) (\<lambda>a.
     andThen (js_or (andThen (get item ''end'') (\<lambda>s. get s ''dateTime''))
                    (andThen (get item ''end'') (\<lambda>s. get s ''date''))) (\<lambda>b.
     andThen (get item ''description'') (\<lambda>d.
     andThen (get item ''updated'') (\<lambda>u.
       Inr \<lparr>id' = i, title = t, startTime = newDate H a, endTime = newDate H b,
            description = d, sourceCalendar = ''google'',
            timestamp = dateParse H u\<rparr>))))))"

definition google_normalizer :: "host \<Rightarrow> jsval \<Rightarrow> error + CalendarEvent list" where
  "google_normalizer H items = js_map (google_item H) items"

definition apple_item :: "host \<Rightarrow> jsval \<Rightarrow> error + CalendarEvent" where
  "apple_item H item =
     andThen (get item ''uid'') (\<lambda>i.
     andThen (get item ''summary'') (\<lambda>t.
     andThen (get item ''dtstart'') (\<lambda>a.
     andThen (get item ''dtend'') (\<lambda>b.
     andThen (get item ''description'') (\<lambda>d.
     andThen (get item ''lastModified'') (\<lambda>u.
       Inr \<lparr>id' = i, title = t, startTime = newDate H a, endTime = newDate H b,
            description = d, sourceCalendar = ''apple'',
            timestamp = dateParse H u\<rparr>))))))"

definition apple_normalizer :: "host \<Rightarrow> jsval \<Rightarrow> error + CalendarEvent list" where
  "apple_normalizer H items = js_map (apple_item H) items"

definition outlook_item :: "host \<Rightarrow> jsval \<Rightarrow> error + CalendarEvent" where
  "outlook_item H item =
     andThen (get item ''id'') (\<lambda>i.
     andThen (get item ''subject'') (\<lambda>t.
     andThen (andThen (get item ''start'') (\<lambda>s. get s ''dateTime'')) (\<lambda>a.
     andThen (andThen (get item ''end'') (\<lambda>s. get s ''dateTime'')) (\<lambda>b.
     andThen (get item ''bodyPreview'') (\<lambda>d.
     andThen (get item ''lastModifiedDateTime'') (\<lambda>u.
       Inr \<lparr>id' = i, title = t, startTime = newDate H a, endTime = newDate H b,
            description = d, sourceCalendar = ''outlook'',
            timestamp = dateParse H u\<rparr>))))))"

definition outlook_normalizer :: "host \<Rightarrow> jsval \<Rightarrow> error + CalendarEvent list" where
  "outlook_normalizer H items = js_map (outlook_item H) items"

definition normalizers :: "host \<Rightarrow> (string \<times> (jsval \<Rightarrow> error + CalendarEvent list)) list" where
  "normalizers H =
     [(''google'', google_normalizer H), (''apple'', apple_normalizer H),
      (''outlook'', outlook_normalizer H)]"

text \<open>The argument the normalizer is called with: \<open>data.items || data.value || data\<close>.\<close>

definition payloadItems :: "jsval \<Rightarrow> error + jsval" where
  "payloadItems data = js_or (js_or (get data ''items'') (get data ''value'')) (Inr data)"

text \<open>
  \<open>normalizeProviderEvents\<close>:
  \<open>normalizer ? normalizer(data.items || data.value || data) : []\<close>.
\<close>

definition normalizeProviderEvents ::
  "host \<Rightarrow> CalendarSyncConfig \<Rightarrow> jsval \<Rightarrow> error + CalendarEvent list" where
  "normalizeProviderEvents H cfg data =
     (case map_of (normalizers H) (provider cfg) of
        Some normalizer \<Rightarrow> andThen (payloadItems data) normalizer
      | None \<Rightarrow> Inr [])"

text \<open>What \<open>formatEventForProvider\<close> returns: a provider payload, or the event itself.\<close>

datatype formatted = Payload jsval | Unformatted CalendarEvent

definition google_formatter :: "host \<Rightarrow> CalendarEvent \<Rightarrow> error + formatted" where
  "google_formatter H e =
     andThen (toISOString H (startTime e)) (\<lambda>a.
     andThen (toISOString H (endTime e)) (\<lambda>b.
       Inr (Payload (JObj
         [(''summary'', title e),
          (''description'', description e),
          (''start'', JObj [(''dateTime'', JStr a)]),
          (''end'', JObj [(''dateTime'', JStr b)])]))))"

definition apple_formatter :: "host \<Rightarrow> CalendarEvent \<Rightarrow> error + formatted" where
  "apple_formatter H e =
     andThen (toISOString H (startTime e)) (\<lambda>a.
     andThen (toISOString H (endTime e)) (\<lambda>b.
       Inr (Payload (JObj
         [(''summary'', title e),
          (''description'', description e),
          (''dtstart'', JStr a),
          (''dtend'', JStr b)]))))"

definition outlook_formatter :: "host \<Rightarrow> CalendarEvent \<Rightarrow> error + formatted" where
  "outlook_formatter H e =
     andThen (toISOString H (startTime e)) (\<lambda>a.
     andThen (toISOString H (endTime e)) (\<lambda>b.
       Inr (Payload (JObj
         [(''subject'', title e),
          (''body'', JObj [(''content'', description e), (''contentType'', JStr ''text'')]),
          (''start'', JObj [(''dateTime'', JStr a), (''timeZone'', JStr ''UTC'')]),
          (''end'', JObj [(''dateTime'', JStr b), (''timeZone'', JStr ''UTC'')])]))))"

definition formatters :: "host \<Rightarrow> (string \<times> (CalendarEvent \<Rightarrow> error + formatted)) list" where
  "formatters H =
     [(''google'', google_formatter H), (''apple'', apple_formatter H),
      (''outlook'', outlook_formatter H)]"

text \<open>\<open>formatEventForProvider\<close>: \<open>formatter ? formatter(event) : event\<close>.\<close>

definition formatEventForProvider ::
  "host \<Rightarrow> CalendarSyncConfig \<Rightarrow> CalendarEvent \<Rightarrow> error + formatted" where
  "formatEventForProvider H cfg event =
     (case map_of (formatters H) (provider cfg) of
        Some formatter \<Rightarrow> formatter event
      | None \<Rightarrow> Inr (Unformatted event))"

subsection \<open>Conflict resolution\<close>

text \<open>
  \<open>resolveConflict\<close>: a \<open>switch\<close> on the configured strategy whose \<open>default\<close> label
  shares the body of \<open>'timestamp'\<close>. The body reads the configuration and the two events
  and assigns nothing, so it is a function of these three values.
\<close>

definition resolveConflict ::
  "CalendarSyncConfig \<Rightarrow> CalendarEvent \<Rightarrow> CalendarEvent \<Rightarrow> CalendarEvent" where
  "resolveConflict cfg localEvent remoteEvent =
     (if conflictResolution cfg = ''source'' then
        (if sourceCalendar remoteEvent \<noteq> ''native'' then remoteEvent else localEvent)
      else if conflictResolution cfg = ''local'' then localEvent
      else
        (if js_gt (timestamp localEvent) (timestamp remoteEvent) then localEvent
         else remoteEvent))"

subsection \<open>Fetching with token refresh\<close>

text \<open>
  The remote side: the answer to the \<open>n\<close>-th request the service sends. \<open>axios.get\<close>
  resolves with the parsed body, or rejects with an Axios error that carries the status
  of the response, if there was one.
\<close>

record request =
  url :: string
  authorization :: string

datatype response = Response jsval | Failure "nat option"

type_synonym remote = "nat \<Rightarrow> request \<Rightarrow> response"

text \<open>\<open>refreshAccessToken\<close> is a placeholder: it logs a warning and changes no field.
  The model counts the calls.\<close>

definition refreshAccessToken :: "state \<Rightarrow> state" where
  "refreshAccessToken st = st\<lparr>refreshes := Suc (refreshes st)\<rparr>"

text \<open>
  \<open>fetchRemoteEvents\<close>. An exception of \<open>normalizeProviderEvents\<close> is caught by the
  same \<open>catch\<close>, is not an Axios error and is thrown again. On status 401 the method
  refreshes and calls itself; the result is \<open>None\<close> when this never ends.
  \<open>fetchRequest\<close> is the request \<open>axios.get\<close> is called with.
\<close>

definition fetchRequest :: "CalendarSyncConfig \<Rightarrow> request" where
  "fetchRequest cfg =
     \<lparr>url = getProviderEndpoint cfg, authorization = ''Bearer '' @ accessToken cfg\<rparr>"

partial_function (option) fetchRemoteEvents ::
  "remote \<Rightarrow> host \<Rightarrow> state \<Rightarrow> ((error + CalendarEvent list) \<times> state) option" where
  "fetchRemoteEvents R H st =
     (case R (requests st) (fetchRequest (config st)) of
        Response data \<Rightarrow>
          Some (normalizeProviderEvents H (config st) data,
                st\<lparr>requests := Suc (requests st)\<rparr>)
      | Failure status \<Rightarrow>
          if status = Some 401
          then fetchRemoteEvents R H (refreshAccessToken (st\<lparr>requests := Suc (requests st)\<rparr>))
          else Some (Inl (AxiosError status), st\<lparr>requests := Suc (requests st)\<rparr>))"

subsection \<open>Polling\<close>

definition clearInterval :: "handle \<Rightarrow> state \<Rightarrow> state" where
  "clearInterval h st = st\<lparr>timers := (timers st)(h := None)\<rparr>"

text \<open>\<open>setInterval\<close> registers a timer under a fresh handle and returns the handle.\<close>

definition setInterval :: "nat \<Rightarrow> state \<Rightarrow> handle \<times> state" where
  "setInterval intervalMs st =
     (nextHandle st,
      st\<lparr>timers := (timers st)(nextHandle st \<mapsto> intervalMs),
         nextHandle := Suc (nextHandle st)\<rparr>)"

definition startPolling :: "nat \<Rightarrow> state \<Rightarrow> state" where
  "startPolling intervalMs st =
     (let st1 = (case syncInterval st of Some h \<Rightarrow> clearInterval h st | None \<Rightarrow> st);
          (h', st2) = setInterval intervalMs st1
      in st2\<lparr>syncInterval := Some h'\<rparr>)"

definition stopSync :: "state \<Rightarrow> state" where
  "stopSync st =
     (case syncInterval st of
        Some h \<Rightarrow> (clearInterval h st)\<lparr>syncInterval := None\<rparr>
      | None \<Rightarrow> st)"

text \<open>\<open>initializeSync\<close>: polling starts only when the first fetch returned events; an
  exception is logged and thrown again.\<close>

definition initializeSync ::
  "remote \<Rightarrow> host \<Rightarrow> state \<Rightarrow> ((error + CalendarEvent list) \<times> state) option" where
  "initializeSync R H st =
     (case fetchRemoteEvents R H st of
        None \<Rightarrow> None
      | Some (Inl e, st1) \<Rightarrow> Some (Inl e, st1)
      | Some (Inr remoteEvents, st1) \<Rightarrow> Some (Inr remoteEvents, startPolling 30000 st1))"

text \<open>One run of the timer callback: fetch, and log instead of throwing.\<close>

definition pollTick :: "remote \<Rightarrow> host \<Rightarrow> state \<Rightarrow> state option" where
  "pollTick R H st = map_option snd (fetchRemoteEvents R H st)"

text \<open>Sequences of completed calls on one instance, in the order they take effect.\<close>

datatype call = InitializeSync | PollTick | StartPolling nat | StopSync

fun step :: "remote \<Rightarrow> host \<Rightarrow> call \<Rightarrow> state \<Rightarrow> state option" where
  "step R H InitializeSync st = map_option snd (initializeSync R H st)"
| "step R H PollTick st = pollTick R H st"
| "step R H (StartPolling n) st = Some (startPolling n st)"
| "step R H StopSync st = Some (stopSync st)"

fun run :: "remote \<Rightarrow> host \<Rightarrow> call list \<Rightarrow> state \<Rightarrow> state option" where
  "run R H [] st = Some st"
| "run R H (c # cs) st = (case step R H c st of None \<Rightarrow> None | Some st' \<Rightarrow> run R H cs st')"

section \<open>The realtime sync service\<close>

text \<open>
  \<open>RealtimeSyncService\<close>. The declaration of \<open>SyncOperation\<close> is not among the
  sources and the service never looks into an operation, so the type of operations is
  a parameter. \<open>sent\<close> records, oldest first, what was emitted on the service's
  sockets.
\<close>

datatype 'op outgoing =
    Operations "'op list"
  | CursorUpdate int int string
  | JoinCalendar string string
  | LeaveCalendar string

record socket_io =
  sock_url :: string
  sock_token :: string

record 'op RealtimeSyncService =
  socket :: "socket_io option"
  token :: string
  rt_url :: string
  sent :: "'op outgoing list"

definition new_realtime :: "string \<Rightarrow> string \<Rightarrow> 'op RealtimeSyncService" where
  "new_realtime u t = \<lparr>socket = None, token = t, rt_url = u, sent = []\<rparr>"

definition connect :: "'op RealtimeSyncService \<Rightarrow> 'op RealtimeSyncService" where
  "connect s = s\<lparr>socket := Some \<lparr>sock_url = rt_url s, sock_token = token s\<rparr>\<rparr>"

definition disconnect :: "'op RealtimeSyncService \<Rightarrow> 'op RealtimeSyncService" where
  "disconnect s = (case socket s of Some k \<Rightarrow> s\<lparr>socket := None\<rparr> | None \<Rightarrow> s)"

definition emit :: "'op outgoing \<Rightarrow> 'op RealtimeSyncService \<Rightarrow> 'op RealtimeSyncService" where
  "emit m s = s\<lparr>sent := sent s @ [m]\<rparr>"

definition sendOperations :: "'op list \<Rightarrow> 'op RealtimeSyncService \<Rightarrow> 'op RealtimeSyncService" where
  "sendOperations operations s =
     (case socket s of Some k \<Rightarrow> emit (Operations operations) s | None \<Rightarrow> s)"

section \<open>The sync queue\<close>

text \<open>
  Modelled from the spec: the Sync Queue and what the engine does with a local
  operation. The queue lives in the application store (\<open>src/stores/appStore.ts\<close>),
  which is not among the sources. The specification says: a \<open>SyncOperation\<close> is
  created on a local mutation, held in the Sync Queue, and removed only on explicit
  acknowledgment; local operations are sent as soon as the channel is connected, and while
  it is disconnected they remain in the Sync Queue; when the channel becomes connected,
  the entire queue is replayed in order. Sending is the \<open>sendOperations\<close> of
  \<open>realtimeSync.ts\<close>, connecting its \<open>connect\<close>.
\<close>

record 'op sync_engine =
  syncQueue :: "'op list"
  realtime :: "'op RealtimeSyncService"

text \<open>Modelled from the spec: a local mutation enters the queue and is handed to the
  channel; nothing here removes it.\<close>

definition submitOperations :: "'op list \<Rightarrow> 'op sync_engine \<Rightarrow> 'op sync_engine" where
  "submitOperations operations e =
     e\<lparr>syncQueue := syncQueue e @ operations,
       realtime := sendOperations operations (realtime e)\<rparr>"

text \<open>Modelled from the spec: on reconnection the whole queue is replayed in order.\<close>

definition reconnectChannel :: "'op sync_engine \<Rightarrow> 'op sync_engine" where
  "reconnectChannel e = e\<lparr>realtime := sendOperations (syncQueue e) (connect (realtime e))\<rparr>"

section \<open>Auxiliary predicates and sample data\<close>

text \<open>Every running timer is the one the instance holds in \<open>syncInterval\<close>.\<close>

definition timers_owned :: "state \<Rightarrow> bool" where
  "timers_owned st = (dom (timers st) = set_option (syncInterval st))"

text \<open>The provider tags the dispatch tables have an entry for.\<close>

definition knownProvider :: "string \<Rightarrow> bool" where
  "knownProvider p = (p = ''google'' \<or> p = ''apple'' \<or> p = ''outlook'')"

text \<open>
  The names every object literal inherits from \<open>Object.prototype\<close>. On such a tag
  \<open>table[provider]\<close> finds the inherited member, not a missing entry.
\<close>

definition inheritedNames :: "string list" where
  "inheritedNames =
     [''constructor'', ''__defineGetter__'', ''__defineSetter__'', ''hasOwnProperty'',
      ''__lookupGetter__'', ''__lookupSetter__'', ''isPrototypeOf'',
      ''propertyIsEnumerable'', ''toString'', ''valueOf'', ''__proto__'',
      ''toLocaleString'']"

definition inheritedName :: "string \<Rightarrow> bool" where
  "inheritedName p = (p \<in> set inheritedNames)"

text \<open>The configuration of the quick-start guide, and two versions of event \<open>e1\<close>.\<close>

definition timestamp_config :: CalendarSyncConfig where
  "timestamp_config =
     \<lparr>provider = ''google'',
      apiEndpoint = ''https://www.googleapis.com/calendar/v3/calendars/primary/events'',
      accessToken = ''access-1'', refreshToken = ''refresh-1'',
      conflictResolution = ''timestamp''\<rparr>"

definition local_e1 :: CalendarEvent where
  "local_e1 =
     \<lparr>id' = JStr ''e1'', title = JStr ''Team Meeting'',
      startTime = Num 1763632800000, endTime = Num 1763636400000,
      description = JUndefined, sourceCalendar = ''native'', timestamp = Num 100\<rparr>"

definition remote_e1_tie :: CalendarEvent where
  "remote_e1_tie =
     \<lparr>id' = JStr ''e1'', title = JStr ''Team Meeting (moved)'',
      startTime = Num 1763636400000, endTime = Num 1763640000000,
      description = JUndefined, sourceCalendar = ''google'', timestamp = Num 100\<rparr>"

definition remote_e1_newer :: CalendarEvent where
  "remote_e1_newer = remote_e1_tie\<lparr>timestamp := Num 200\<rparr>"

text \<open>Remote sides: an empty calendar; a token rejected twice, then accepted; a token
  rejected once, then a server error; a token rejected forever.\<close>

definition empty_calendar :: remote where
  "empty_calendar n q = Response (JObj [(''items'', JArr [])])"

definition expired_twice :: remote where
  "expired_twice n q =
     (if n < 2 then Failure (Some 401) else Response (JObj [(''items'', JArr [])]))"

definition expired_then_down :: remote where
  "expired_then_down n q = (if n < 1 then Failure (Some 401) else Failure (Some 503))"

definition always_expired :: remote where
  "always_expired n q = Failure (Some 401)"

text \<open>Configurations for the other providers and for a provider the tables do not know.\<close>

definition apple_config :: CalendarSyncConfig where
  "apple_config = timestamp_config\<lparr>provider := ''apple'', apiEndpoint := ''https://caldav.icloud.com''\<rparr>"

definition outlook_config :: CalendarSyncConfig where
  "outlook_config =
     timestamp_config\<lparr>provider := ''outlook'',
       apiEndpoint := ''https://graph.microsoft.com/v1.0/me/calendar/events''\<rparr>"

definition custom_config :: CalendarSyncConfig where
  "custom_config =
     timestamp_config\<lparr>provider := ''custom'',
       apiEndpoint := ''https://calendar.example.org/events''\<rparr>"

definition google_standup :: jsval where
  "google_standup =
     JObj [(''id'', JStr ''g1''), (''summary'', JStr ''Standup''),
           (''start'', JObj [(''dateTime'', JStr ''2024-05-01T09:00:00Z'')]),
           (''end'', JObj [(''dateTime'', JStr ''2024-05-01T09:15:00Z'')]),
           (''description'', JStr ''Daily''),
           (''updated'', JStr ''2024-04-30T12:00:00.000Z'')]"

definition google_review :: jsval where
  "google_review =
     JObj [(''id'', JStr ''g2''), (''summary'', JStr ''Review''),
           (''start'', JObj [(''dateTime'', JStr ''2024-05-01T10:00:00Z'')]),
           (''end'', JObj [(''dateTime'', JStr ''2024-05-01T10:00:00Z'')]),
           (''updated'', JStr ''2024-04-30T12:00:00.000Z'')]"


definition apple_lunch :: jsval where
  "apple_lunch =
     JObj [(''uid'', JStr ''a1''), (''summary'', JStr ''Lunch''),
           (''dtstart'', JStr ''2024-05-01T12:00:00.000Z''),
           (''dtend'', JStr ''2024-05-01T13:00:00.000Z''),
           (''description'', JStr ''Cafe''),
           (''lastModified'', JStr ''2024-04-30T12:00:00.000Z'')]"

definition apple_bare :: jsval where
  "apple_bare = JObj [(''uid'', JStr ''a2'')]"

definition apple_backwards :: jsval where
  "apple_backwards =
     JObj [(''uid'', JStr ''a3''), (''summary'', JStr ''Backwards''),
           (''dtstart'', JStr ''2024-05-01T13:00:00.000Z''),
           (''dtend'', JStr ''2024-05-01T12:00:00.000Z''),
           (''lastModified'', JStr ''2024-04-30T12:00:00.000Z'')]"

definition outlook_review :: jsval where
  "outlook_review =
     JObj [(''id'', JStr ''o1''), (''subject'', JStr ''Review''),
           (''start'', JObj [(''dateTime'', JStr ''2024-05-01T09:00:00.000Z''),
                             (''timeZone'', JStr ''UTC'')]),
           (''end'', JObj [(''dateTime'', JStr ''2024-05-01T10:00:00.000Z''),
                           (''timeZone'', JStr ''UTC'')]),
           (''bodyPreview'', JStr ''Agenda attached''),
           (''lastModifiedDateTime'', JStr ''2024-04-30T12:00:00.000Z'')]"

definition outlook_backwards :: jsval where
  "outlook_backwards =
     JObj [(''id'', JStr ''o2''), (''subject'', JStr ''Backwards''),
           (''start'', JObj [(''dateTime'', JStr ''2024-05-01T10:00:00.000Z'')]),
           (''end'', JObj [(''dateTime'', JStr ''2024-05-01T09:00:00.000Z'')]),
           (''lastModifiedDateTime'', JStr ''2024-04-30T12:00:00.000Z'')]"

definition outlook_no_start :: jsval where
  "outlook_no_start =
     JObj [(''id'', JStr ''o3''), (''subject'', JStr ''No start''),
           (''end'', JObj [(''dateTime'', JStr ''2024-05-01T09:00:00.000Z'')])]"

definition custom_event :: jsval where
  "custom_event =
     JObj [(''id'', JStr ''c1''), (''title'', JStr ''Dentist''),
           (''startTime'', JStr ''2024-05-02T08:00:00.000Z''),
           (''endTime'', JStr ''2024-05-02T08:30:00.000Z''),
           (''sourceCalendar'', JStr ''custom''),
           (''timestamp'', JNum 1714478400000)]"

definition offline_service :: "(nat \<times> CalendarEvent) RealtimeSyncService" where
  "offline_service = new_realtime ''wss://sync.example.org'' ''access-1''"

definition offline_engine :: "(nat \<times> CalendarEvent) sync_engine" where
  "offline_engine = \<lparr>syncQueue = [], realtime = offline_service\<rparr>"

section \<open>Properties of conflict resolution\<close>

lemma js_gt_irrefl: "\<not> js_gt a a"
  by (cases a) simp_all

text \<open>
  C1, as the code has it. Under the \<open>"timestamp"\<close> strategy \<open>resolveConflict\<close> returns
  the local event exactly when the local timestamp is strictly greater than the remote
  one, and the remote event in every other case: when the remote timestamp is greater,
  when the two are equal, and when one of them is \<open>NaN\<close>.
\<close>

theorem resolveConflict_timestamp:
  "conflictResolution cfg = ''timestamp'' \<Longrightarrow>
   resolveConflict cfg l r = (if js_gt (timestamp l) (timestamp r) then l else r)"
  by (simp add: resolveConflict_def)

text \<open>Scenario 1 of the specification, in both argument orders: the newer version wins.\<close>

theorem resolveConflict_timestamp_witness:
  "conflictResolution timestamp_config = ''timestamp'' \<and>
   resolveConflict timestamp_config local_e1 remote_e1_newer = remote_e1_newer \<and>
   resolveConflict timestamp_config remote_e1_newer local_e1 = remote_e1_newer"
  using resolveConflict_timestamp [of timestamp_config local_e1 remote_e1_newer]
    resolveConflict_timestamp [of timestamp_config remote_e1_newer local_e1]
  by (simp add: timestamp_config_def local_e1_def remote_e1_newer_def remote_e1_tie_def)

text \<open>
  C1 as stated fails on a tie: two versions of \<open>e1\<close> with the same timestamp, and the
  remote one is returned, not the local one.
\<close>

theorem resolveConflict_tie_counterexample:
  "conflictResolution timestamp_config = ''timestamp'' \<and>
   id' local_e1 = id' remote_e1_tie \<and>
   timestamp local_e1 = timestamp remote_e1_tie \<and>
   resolveConflict timestamp_config local_e1 remote_e1_tie = remote_e1_tie \<and>
   resolveConflict timestamp_config local_e1 remote_e1_tie \<noteq> local_e1"
  by (simp add: resolveConflict_def timestamp_config_def local_e1_def remote_e1_tie_def)

text \<open>
  C5. \<open>resolveConflict\<close> is idempotent under every strategy, the unrecognized ones
  included: resolving the result against the same remote event gives the result again.
\<close>

theorem resolveConflict_idempotent:
  "resolveConflict cfg (resolveConflict cfg a b) b = resolveConflict cfg a b"
  by (simp add: resolveConflict_def js_gt_irrefl)

text \<open>
  C6. For every configuration, whatever its strategy string, and every pair of events,
  \<open>resolveConflict\<close> returns a value, and that value is one of its two arguments. It is
  a function of its arguments only: nothing is written.
\<close>

theorem resolveConflict_selects_an_input:
  "resolveConflict cfg l r = l \<or> resolveConflict cfg l r = r"
  by (simp add: resolveConflict_def)

section \<open>Properties of normalization\<close>

text \<open>A sequence returns when each step does, and throws what its first failing step
  throws.\<close>

lemma andThen_Inr_iff: "andThen m f = Inr y \<longleftrightarrow> (\<exists>x. m = Inr x \<and> f x = Inr y)"
  by (cases m) (simp_all add: andThen_def)




text \<open>Mapping keeps length and positions; it throws as soon as one element does, and
  only what an element throws.\<close>

lemma mapE_length: "mapE f xs = Inr ys \<Longrightarrow> length ys = length xs"
  by (induction xs arbitrary: ys) (auto simp: andThen_Inr_iff)

lemma mapE_nth: "mapE f xs = Inr ys \<Longrightarrow> i < length xs \<Longrightarrow> f (xs ! i) = Inr (ys ! i)"
proof (induction xs arbitrary: ys i)
  case Nil
  then show ?case by simp
next
  case (Cons x xs)
  from Cons.prems(1) obtain y ys' where y: "f x = Inr y" and ys': "mapE f xs = Inr ys'"
    and ys: "ys = y # ys'"
    by (auto simp: andThen_Inr_iff)
  show ?case
  proof (cases i)
    case 0
    with y ys show ?thesis by simp
  next
    case (Suc j)
    with Cons.prems(2) have "j < length xs" by simp
    from Cons.IH [OF ys' this] Suc ys show ?thesis by simp
  qed
qed


lemma mapE_fails: "x \<in> set xs \<Longrightarrow> f x = Inl e \<Longrightarrow> \<exists>e'. mapE f xs = Inl e'"
proof (induction xs)
  case Nil
  then show ?case by simp
next
  case (Cons a xs)
  show ?case
  proof (cases "f a")
    case (Inl e1)
    then show ?thesis by (simp add: andThen_def)
  next
    case (Inr y)
    with Cons have "x \<in> set xs" by auto
    from Cons.IH [OF this Cons.prems(2)] obtain e' where "mapE f xs = Inl e'" by blast
    with Inr show ?thesis by (simp add: andThen_def)
  qed
qed








text \<open>The dispatch, provider by provider.\<close>

lemma normalizer_eta:
  "google_normalizer H = js_map (google_item H)"
  "apple_normalizer H = js_map (apple_item H)"
  "outlook_normalizer H = js_map (outlook_item H)"
  by (simp_all add: fun_eq_iff google_normalizer_def apple_normalizer_def
      outlook_normalizer_def)

lemma normalize_known:
  "provider cfg = ''google'' \<Longrightarrow>
     normalizeProviderEvents H cfg data = andThen (payloadItems data) (js_map (google_item H))"
  "provider cfg = ''apple'' \<Longrightarrow>
     normalizeProviderEvents H cfg data = andThen (payloadItems data) (js_map (apple_item H))"
  "provider cfg = ''outlook'' \<Longrightarrow>
     normalizeProviderEvents H cfg data = andThen (payloadItems data) (js_map (outlook_item H))"
  by (simp_all add: normalizeProviderEvents_def normalizers_def normalizer_eta)

lemma normalize_unknown:
  "\<not> knownProvider (provider cfg) \<Longrightarrow> normalizeProviderEvents H cfg data = Inr []"
  by (simp add: normalizeProviderEvents_def normalizers_def knownProvider_def)


text \<open>What a batch of a known provider is mapped with.\<close>

lemma normalize_items:
  assumes "knownProvider (provider cfg)" and "payloadItems data = Inr (JArr items)"
  shows "\<exists>f. normalizeProviderEvents H cfg data = mapE f items
           \<and> (provider cfg = ''google'' \<longrightarrow> f = google_item H)
           \<and> (provider cfg = ''apple'' \<longrightarrow> f = apple_item H)
           \<and> (provider cfg = ''outlook'' \<longrightarrow> f = outlook_item H)"
  using assms
  by (auto simp: knownProvider_def normalize_known andThen_def js_map_def)


text \<open>What a normalizer has read when it returns an event.\<close>

lemma apple_item_Inr:
  assumes "apple_item H x = Inr e"
  shows "\<exists>i t a b d u. get x ''uid'' = Inr i \<and> get x ''summary'' = Inr t
          \<and> get x ''dtstart'' = Inr a \<and> get x ''dtend'' = Inr b
          \<and> get x ''description'' = Inr d \<and> get x ''lastModified'' = Inr u
          \<and> e = \<lparr>id' = i, title = t, startTime = newDate H a, endTime = newDate H b,
                 description = d, sourceCalendar = ''apple'', timestamp = dateParse H u\<rparr>"
  using assms unfolding apple_item_def andThen_Inr_iff by blast

lemma outlook_item_Inr:
  assumes "outlook_item H x = Inr e"
  shows "\<exists>i t s a f b d u. get x ''id'' = Inr i \<and> get x ''subject'' = Inr t
          \<and> get x ''start'' = Inr s \<and> get s ''dateTime'' = Inr a
          \<and> get x ''end'' = Inr f \<and> get f ''dateTime'' = Inr b
          \<and> get x ''bodyPreview'' = Inr d \<and> get x ''lastModifiedDateTime'' = Inr u
          \<and> e = \<lparr>id' = i, title = t, startTime = newDate H a, endTime = newDate H b,
                 description = d, sourceCalendar = ''outlook'', timestamp = dateParse H u\<rparr>"
  using assms unfolding outlook_item_def andThen_Inr_iff by blast

lemma js_or_field:
  assumes "js_or (andThen (get x k) (\<lambda>s. get s k1)) (andThen (get x k) (\<lambda>s. get s k2)) = Inr a"
  shows "\<exists>s. get x k = Inr s \<and> js_or (get s k1) (get s k2) = Inr a"
proof (cases "get x k")
  case (Inl e)
  with assms show ?thesis by (simp add: js_or_def andThen_def)
next
  case (Inr s)
  with assms show ?thesis by (simp add: andThen_def)
qed

lemma google_item_Inr:
  assumes "google_item H x = Inr e"
  shows "\<exists>i t s a f b d u. get x ''id'' = Inr i \<and> get x ''summary'' = Inr t
          \<and> get x ''start'' = Inr s \<and> js_or (get s ''dateTime'') (get s ''date'') = Inr a
          \<and> get x ''end'' = Inr f \<and> js_or (get f ''dateTime'') (get f ''date'') = Inr b
          \<and> get x ''description'' = Inr d \<and> get x ''updated'' = Inr u
          \<and> e = \<lparr>id' = i, title = t, startTime = newDate H a, endTime = newDate H b,
                 description = d, sourceCalendar = ''google'', timestamp = dateParse H u\<rparr>"
proof -
  from assms obtain i t a b d u where g: "get x ''id'' = Inr i" "get x ''summary'' = Inr t"
    "js_or (andThen (get x ''start'') (\<lambda>s. get s ''dateTime''))
           (andThen (get x ''start'') (\<lambda>s. get s ''date'')) = Inr a"
    "js_or (andThen (get x ''end'') (\<lambda>s. get s ''dateTime''))
           (andThen (get x ''end'') (\<lambda>s. get s ''date'')) = Inr b"
    "get x ''description'' = Inr d" "get x ''updated'' = Inr u"
    "e = \<lparr>id' = i, title = t, startTime = newDate H a, endTime = newDate H b,
                 description = d, sourceCalendar = ''google'', timestamp = dateParse H u\<rparr>"
    unfolding google_item_def andThen_Inr_iff by blast
  from js_or_field [OF g(3)] obtain s where "get x ''start'' = Inr s"
    "js_or (get s ''dateTime'') (get s ''date'') = Inr a" by blast
  moreover from js_or_field [OF g(4)] obtain f where "get x ''end'' = Inr f"
    "js_or (get f ''dateTime'') (get f ''date'') = Inr b" by blast
  ultimately show ?thesis using g by blast
qed

lemma normalize_nth:
  assumes "knownProvider (provider cfg)" and "normalizeProviderEvents H cfg data = Inr evs"
    and "payloadItems data = Inr (JArr items)" and "i < length items"
  shows "i < length evs
       \<and> (provider cfg = ''google'' \<longrightarrow> google_item H (items ! i) = Inr (evs ! i))
       \<and> (provider cfg = ''apple'' \<longrightarrow> apple_item H (items ! i) = Inr (evs ! i))
       \<and> (provider cfg = ''outlook'' \<longrightarrow> outlook_item H (items ! i) = Inr (evs ! i))"
proof -
  from normalize_items [OF assms(1,3), of H] assms(2) obtain f where
    f: "mapE f items = Inr evs"
    and p: "provider cfg = ''google'' \<longrightarrow> f = google_item H"
      "provider cfg = ''apple'' \<longrightarrow> f = apple_item H"
      "provider cfg = ''outlook'' \<longrightarrow> f = outlook_item H"
    by auto
  from mapE_length [OF f] assms(4) have "i < length evs" by simp
  moreover from mapE_nth [OF f assms(4)] have "f (items ! i) = Inr (evs ! i)" .
  ultimately show ?thesis using p by auto
qed

text \<open>The sample batches, evaluated on the reference host.\<close>

lemma apple_batch:
  "normalizeProviderEvents es_host apple_config (JArr [apple_lunch, apple_bare, apple_backwards])
   = Inr [\<lparr>id' = JStr ''a1'', title = JStr ''Lunch'',
         startTime = Num 1714564800000, endTime = Num 1714568400000,
         description = JStr ''Cafe'', sourceCalendar = ''apple'',
         timestamp = Num 1714478400000\<rparr>,
      \<lparr>id' = JStr ''a2'', title = JUndefined, startTime = NaN,
         endTime = NaN, description = JUndefined,
         sourceCalendar = ''apple'', timestamp = NaN\<rparr>,
      \<lparr>id' = JStr ''a3'', title = JStr ''Backwards'',
         startTime = Num 1714568400000, endTime = Num 1714564800000,
         description = JUndefined, sourceCalendar = ''apple'',
         timestamp = Num 1714478400000\<rparr>]"
  by code_simp

lemma outlook_batch:
  "normalizeProviderEvents es_host outlook_config
     (JObj [(''value'', JArr [outlook_review, outlook_backwards])])
   = Inr [\<lparr>id' = JStr ''o1'', title = JStr ''Review'',
         startTime = Num 1714554000000, endTime = Num 1714557600000,
         description = JStr ''Agenda attached'',
         sourceCalendar = ''outlook'', timestamp = Num 1714478400000\<rparr>,
      \<lparr>id' = JStr ''o2'', title = JStr ''Backwards'',
         startTime = Num 1714557600000, endTime = Num 1714554000000,
         description = JUndefined, sourceCalendar = ''outlook'',
         timestamp = Num 1714478400000\<rparr>]"
  by code_simp

lemma google_batch:
  "normalizeProviderEvents es_host timestamp_config
     (JObj [(''items'', JArr [google_standup, google_review])])
   = Inr [\<lparr>id' = JStr ''g1'', title = JStr ''Standup'',
            startTime = Num 1714554000000, endTime = Num 1714554900000,
            description = JStr ''Daily'', sourceCalendar = ''google'',
            timestamp = Num 1714478400000\<rparr>,
          \<lparr>id' = JStr ''g2'', title = JStr ''Review'',
            startTime = Num 1714557600000, endTime = Num 1714557600000,
            description = JUndefined, sourceCalendar = ''google'',
            timestamp = Num 1714478400000\<rparr>]"
  by code_simp

lemma sample_payloadItems:
  "payloadItems (JArr [apple_lunch, apple_bare, apple_backwards])
     = Inr (JArr [apple_lunch, apple_bare, apple_backwards])"
  "payloadItems (JObj [(''value'', JArr [outlook_review, outlook_backwards])])
     = Inr (JArr [outlook_review, outlook_backwards])"
  "payloadItems (JObj [(''value'', JArr [outlook_review, outlook_no_start])])
     = Inr (JArr [outlook_review, outlook_no_start])"
  "payloadItems (JObj [(''items'', JArr [google_standup, google_review])])
     = Inr (JArr [google_standup, google_review])"
  "payloadItems (JObj [(''items'', JArr [google_standup])]) = Inr (JArr [google_standup])"
  by (simp_all add: payloadItems_def js_or_def andThen_def)

lemma sample_providers:
  "provider timestamp_config = ''google''" "provider apple_config = ''apple''"
  "provider outlook_config = ''outlook''" "provider custom_config = ''custom''"
  by (simp_all add: timestamp_config_def apple_config_def outlook_config_def custom_config_def)

lemma google_single:
  "normalizeProviderEvents es_host timestamp_config (JObj [(''items'', JArr [google_standup])])
   = Inr [\<lparr>id' = JStr ''g1'', title = JStr ''Standup'',
            startTime = Num 1714554000000, endTime = Num 1714554900000,
            description = JStr ''Daily'', sourceCalendar = ''google'',
            timestamp = Num 1714478400000\<rparr>]"
  by code_simp

lemma sample_iso:
  "isoString es_host 1714554000000 = ''2024-05-01T09:00:00.000Z''"
  "isoString es_host 1714554900000 = ''2024-05-01T09:15:00.000Z''"
  by code_simp+

lemma apple_single:
  "normalizeProviderEvents es_host apple_config (JArr [apple_lunch])
   = Inr [\<lparr>id' = JStr ''a1'', title = JStr ''Lunch'',
         startTime = Num 1714564800000, endTime = Num 1714568400000,
         description = JStr ''Cafe'', sourceCalendar = ''apple'',
         timestamp = Num 1714478400000\<rparr>]"
  by code_simp

lemma outlook_single:
  "normalizeProviderEvents es_host outlook_config (JObj [(''value'', JArr [outlook_review])])
   = Inr [\<lparr>id' = JStr ''o1'', title = JStr ''Review'',
         startTime = Num 1714554000000, endTime = Num 1714557600000,
         description = JStr ''Agenda attached'',
         sourceCalendar = ''outlook'', timestamp = Num 1714478400000\<rparr>]"
  by code_simp

lemma sample_payloadItems_single:
  "payloadItems (JArr [apple_lunch]) = Inr (JArr [apple_lunch])"
  "payloadItems (JObj [(''value'', JArr [outlook_review])]) = Inr (JArr [outlook_review])"
  by (simp_all add: payloadItems_def js_or_def andThen_def)

lemma sample_iso2:
  "isoString es_host 1714564800000 = ''2024-05-01T12:00:00.000Z''"
  "isoString es_host 1714568400000 = ''2024-05-01T13:00:00.000Z''"
  "isoString es_host 1714557600000 = ''2024-05-01T10:00:00.000Z''"
  by code_simp+















text \<open>
  C9, as the code has it. Normalization does not compare start and end. In a batch of a
  known provider that normalizes, the event at each position carries as \<open>startTime\<close>
  and \<open>endTime\<close> the dates built from the start and end fields of the item at that
  position, whatever their order: an item that ends before it starts is returned like
  an item of zero duration.
\<close>
theorem normalization_ignores_time_order:
  assumes "knownProvider (provider cfg)" and "normalizeProviderEvents H cfg data = Inr evs"
    and "payloadItems data = Inr (JArr items)" and "i < length items"
  shows "i < length evs
       \<and> (provider cfg = ''google'' \<longrightarrow>
            (\<exists>s a f b. get (items ! i) ''start'' = Inr s
               \<and> js_or (get s ''dateTime'') (get s ''date'') = Inr a
               \<and> get (items ! i) ''end'' = Inr f
               \<and> js_or (get f ''dateTime'') (get f ''date'') = Inr b
               \<and> startTime (evs ! i) = newDate H a \<and> endTime (evs ! i) = newDate H b))
       \<and> (provider cfg = ''apple'' \<longrightarrow>
            (\<exists>a b. get (items ! i) ''dtstart'' = Inr a \<and> get (items ! i) ''dtend'' = Inr b
               \<and> startTime (evs ! i) = newDate H a \<and> endTime (evs ! i) = newDate H b))
       \<and> (provider cfg = ''outlook'' \<longrightarrow>
            (\<exists>s a f b. get (items ! i) ''start'' = Inr s \<and> get s ''dateTime'' = Inr a
               \<and> get (items ! i) ''end'' = Inr f \<and> get f ''dateTime'' = Inr b
               \<and> startTime (evs ! i) = newDate H a \<and> endTime (evs ! i) = newDate H b))"
proof -
  note n = normalize_nth [OF assms]
  have "provider cfg = ''google'' \<longrightarrow>
            (\<exists>s a f b. get (items ! i) ''start'' = Inr s
               \<and> js_or (get s ''dateTime'') (get s ''date'') = Inr a
               \<and> get (items ! i) ''end'' = Inr f
               \<and> js_or (get f ''dateTime'') (get f ''date'') = Inr b
               \<and> startTime (evs ! i) = newDate H a \<and> endTime (evs ! i) = newDate H b)"
  proof
    assume "provider cfg = ''google''"
    with n have "google_item H (items ! i) = Inr (evs ! i)" by simp
    from google_item_Inr [OF this] show "\<exists>s a f b. get (items ! i) ''start'' = Inr s
               \<and> js_or (get s ''dateTime'') (get s ''date'') = Inr a
               \<and> get (items ! i) ''end'' = Inr f
               \<and> js_or (get f ''dateTime'') (get f ''date'') = Inr b
               \<and> startTime (evs ! i) = newDate H a \<and> endTime (evs ! i) = newDate H b"
      by fastforce
  qed
  moreover have "provider cfg = ''apple'' \<longrightarrow>
            (\<exists>a b. get (items ! i) ''dtstart'' = Inr a \<and> get (items ! i) ''dtend'' = Inr b
               \<and> startTime (evs ! i) = newDate H a \<and> endTime (evs ! i) = newDate H b)"
  proof
    assume "provider cfg = ''apple''"
    with n have "apple_item H (items ! i) = Inr (evs ! i)" by simp
    from apple_item_Inr [OF this] show "\<exists>a b. get (items ! i) ''dtstart'' = Inr a
               \<and> get (items ! i) ''dtend'' = Inr b
               \<and> startTime (evs ! i) = newDate H a \<and> endTime (evs ! i) = newDate H b"
      by fastforce
  qed
  moreover have "provider cfg = ''outlook'' \<longrightarrow>
            (\<exists>s a f b. get (items ! i) ''start'' = Inr s \<and> get s ''dateTime'' = Inr a
               \<and> get (items ! i) ''end'' = Inr f \<and> get f ''dateTime'' = Inr b
               \<and> startTime (evs ! i) = newDate H a \<and> endTime (evs ! i) = newDate H b)"
  proof
    assume "provider cfg = ''outlook''"
    with n have "outlook_item H (items ! i) = Inr (evs ! i)" by simp
    from outlook_item_Inr [OF this] show "\<exists>s a f b. get (items ! i) ''start'' = Inr s
               \<and> get s ''dateTime'' = Inr a
               \<and> get (items ! i) ''end'' = Inr f \<and> get f ''dateTime'' = Inr b
               \<and> startTime (evs ! i) = newDate H a \<and> endTime (evs ! i) = newDate H b"
      by fastforce
  qed
  ultimately show ?thesis using n by blast
qed

text \<open>A google item of zero duration, an outlook item that ends an hour before it
  starts, and an apple batch with an item without dates and one that ends before it
  starts: all are returned.\<close>
theorem normalization_ignores_time_order_witness:
  "(\<exists>evs. normalizeProviderEvents es_host timestamp_config
            (JObj [(''items'', JArr [google_standup, google_review])]) = Inr evs
        \<and> startTime (evs ! 1) = Num 1714557600000 \<and> endTime (evs ! 1) = Num 1714557600000)
   \<and> (\<exists>evs. normalizeProviderEvents es_host outlook_config
            (JObj [(''value'', JArr [outlook_review, outlook_backwards])]) = Inr evs
        \<and> startTime (evs ! 1) = Num 1714557600000 \<and> endTime (evs ! 1) = Num 1714554000000)
   \<and> (\<exists>evs. normalizeProviderEvents es_host apple_config
            (JArr [apple_lunch, apple_bare, apple_backwards]) = Inr evs
        \<and> startTime (evs ! 1) = NaN \<and> endTime (evs ! 2) = Num 1714564800000)"
proof -
  have k: "knownProvider (provider timestamp_config)" "knownProvider (provider outlook_config)"
    "knownProvider (provider apple_config)"
    by (simp_all add: knownProvider_def sample_providers)
  note g = normalization_ignores_time_order
    [OF k(1) google_batch sample_payloadItems(4), of 1]
  note out = normalization_ignores_time_order
    [OF k(2) outlook_batch sample_payloadItems(2), of 1]
  note a = normalization_ignores_time_order
    [OF k(3) apple_batch sample_payloadItems(1), of 2]
  from g out a show ?thesis
    by (simp add: google_batch outlook_batch apple_batch)
qed

text \<open>
  C9 as stated fails on an apple item whose \<open>dtend\<close> is an hour before its
  \<open>dtstart\<close>: the item is not rejected, its event is returned with
  \<open>startTime > endTime\<close>.
\<close>
theorem normalization_reversed_times_counterexample:
  "normalizeProviderEvents es_host apple_config (JArr [apple_backwards])
   = Inr [\<lparr>id' = JStr ''a3'', title = JStr ''Backwards'',
         startTime = Num 1714568400000, endTime = Num 1714564800000,
         description = JUndefined, sourceCalendar = ''apple'',
         timestamp = Num 1714478400000\<rparr>]
   \<and> js_gt (Num 1714568400000) (Num 1714564800000)"
  by code_simp

section \<open>Properties of formatting and of the provider dispatch\<close>

text \<open>The formatter dispatch, provider by provider.\<close>

lemma format_known:
  "provider cfg = ''google'' \<Longrightarrow> formatEventForProvider H cfg e = google_formatter H e"
  "provider cfg = ''apple'' \<Longrightarrow> formatEventForProvider H cfg e = apple_formatter H e"
  "provider cfg = ''outlook'' \<Longrightarrow> formatEventForProvider H cfg e = outlook_formatter H e"
  by (simp_all add: formatEventForProvider_def formatters_def)

text \<open>
  C4, as the code has it. Let a known provider's batch hold the single item \<open>x\<close> and
  normalize to the event \<open>e\<close> with valid start and end dates. Then formatting \<open>e\<close>
  gives a payload that carries the title of \<open>x\<close> unchanged (\<open>summary\<close>, for outlook
  \<open>subject\<close>) and the start and end as the \<open>toISOString\<close> text of the instants read,
  not as the text \<open>x\<close> had. The google and apple payloads carry the description of
  \<open>x\<close> under the field it was read from; the outlook payload carries the text read
  from \<open>bodyPreview\<close> under \<open>body.content\<close>, and has no \<open>bodyPreview\<close>.
\<close>
theorem denormalize_after_normalize:
  assumes "normalizeProviderEvents H cfg data = Inr [e]"
    and "payloadItems data = Inr (JArr [x])"
    and "startTime e = Num s" and "endTime e = Num t"
  shows "(provider cfg = ''google'' \<longrightarrow>
            (\<exists>ttl d. get x ''summary'' = Inr ttl \<and> get x ''description'' = Inr d
               \<and> formatEventForProvider H cfg e =
                   Inr (Payload (JObj
                     [(''summary'', ttl),
                      (''description'', d),
                      (''start'', JObj [(''dateTime'', JStr (isoString H s))]),
                      (''end'', JObj [(''dateTime'', JStr (isoString H t))])]))))
       \<and> (provider cfg = ''apple'' \<longrightarrow>
            (\<exists>ttl d. get x ''summary'' = Inr ttl \<and> get x ''description'' = Inr d
               \<and> formatEventForProvider H cfg e =
                   Inr (Payload (JObj
                     [(''summary'', ttl),
                      (''description'', d),
                      (''dtstart'', JStr (isoString H s)),
                      (''dtend'', JStr (isoString H t))]))))
       \<and> (provider cfg = ''outlook'' \<longrightarrow>
            (\<exists>ttl d. get x ''subject'' = Inr ttl \<and> get x ''bodyPreview'' = Inr d
               \<and> formatEventForProvider H cfg e =
                   Inr (Payload (JObj
                     [(''subject'', ttl),
                      (''body'', JObj [(''content'', d), (''contentType'', JStr ''text'')]),
                      (''start'', JObj [(''dateTime'', JStr (isoString H s)),
                                        (''timeZone'', JStr ''UTC'')]),
                      (''end'', JObj [(''dateTime'', JStr (isoString H t)),
                                      (''timeZone'', JStr ''UTC'')])]))))"
proof -
  have k: "knownProvider (provider cfg)"
  proof (rule ccontr)
    assume "\<not> knownProvider (provider cfg)"
    from normalize_unknown [OF this, of H data] assms(1) show False by simp
  qed
  from normalize_nth [OF k assms(1,2), of 0]
  have n: "provider cfg = ''google'' \<longrightarrow> google_item H x = Inr e"
    "provider cfg = ''apple'' \<longrightarrow> apple_item H x = Inr e"
    "provider cfg = ''outlook'' \<longrightarrow> outlook_item H x = Inr e"
    by simp_all
  have g: "provider cfg = ''google'' \<longrightarrow>
            (\<exists>ttl d. get x ''summary'' = Inr ttl \<and> get x ''description'' = Inr d
               \<and> formatEventForProvider H cfg e =
                   Inr (Payload (JObj
                     [(''summary'', ttl),
                      (''description'', d),
                      (''start'', JObj [(''dateTime'', JStr (isoString H s))]),
                      (''end'', JObj [(''dateTime'', JStr (isoString H t))])])))"
  proof
    assume p: "provider cfg = ''google''"
    with n have "google_item H x = Inr e" by simp
    from google_item_Inr [OF this] obtain ttl d where
      "get x ''summary'' = Inr ttl" "get x ''description'' = Inr d"
      "title e = ttl" "description e = d"
      by fastforce
    then show "\<exists>ttl d. get x ''summary'' = Inr ttl \<and> get x ''description'' = Inr d
               \<and> formatEventForProvider H cfg e =
                   Inr (Payload (JObj
                     [(''summary'', ttl),
                      (''description'', d),
                      (''start'', JObj [(''dateTime'', JStr (isoString H s))]),
                      (''end'', JObj [(''dateTime'', JStr (isoString H t))])]))"
      using assms(3,4) p
      by (simp add: format_known google_formatter_def andThen_def)
  qed
  have a: "provider cfg = ''apple'' \<longrightarrow>
            (\<exists>ttl d. get x ''summary'' = Inr ttl \<and> get x ''description'' = Inr d
               \<and> formatEventForProvider H cfg e =
                   Inr (Payload (JObj
                     [(''summary'', ttl),
                      (''description'', d),
                      (''dtstart'', JStr (isoString H s)),
                      (''dtend'', JStr (isoString H t))])))"
  proof
    assume p: "provider cfg = ''apple''"
    with n have "apple_item H x = Inr e" by simp
    from apple_item_Inr [OF this] obtain ttl d where
      "get x ''summary'' = Inr ttl" "get x ''description'' = Inr d"
      "title e = ttl" "description e = d"
      by fastforce
    then show "\<exists>ttl d. get x ''summary'' = Inr ttl \<and> get x ''description'' = Inr d
               \<and> formatEventForProvider H cfg e =
                   Inr (Payload (JObj
                     [(''summary'', ttl),
                      (''description'', d),
                      (''dtstart'', JStr (isoString H s)),
                      (''dtend'', JStr (isoString H t))]))"
      using assms(3,4) p
      by (simp add: format_known apple_formatter_def andThen_def)
  qed
  have o: "provider cfg = ''outlook'' \<longrightarrow>
            (\<exists>ttl d. get x ''subject'' = Inr ttl \<and> get x ''bodyPreview'' = Inr d
               \<and> formatEventForProvider H cfg e =
                   Inr (Payload (JObj
                     [(''subject'', ttl),
                      (''body'', JObj [(''content'', d), (''contentType'', JStr ''text'')]),
                      (''start'', JObj [(''dateTime'', JStr (isoString H s)),
                                        (''timeZone'', JStr ''UTC'')]),
                      (''end'', JObj [(''dateTime'', JStr (isoString H t)),
                                      (''timeZone'', JStr ''UTC'')])])))"
  proof
    assume p: "provider cfg = ''outlook''"
    with n have "outlook_item H x = Inr e" by simp
    from outlook_item_Inr [OF this] obtain ttl d where
      "get x ''subject'' = Inr ttl" "get x ''bodyPreview'' = Inr d"
      "title e = ttl" "description e = d"
      by fastforce
    then show "\<exists>ttl d. get x ''subject'' = Inr ttl \<and> get x ''bodyPreview'' = Inr d
               \<and> formatEventForProvider H cfg e =
                   Inr (Payload (JObj
                     [(''subject'', ttl),
                      (''body'', JObj [(''content'', d), (''contentType'', JStr ''text'')]),
                      (''start'', JObj [(''dateTime'', JStr (isoString H s)),
                                        (''timeZone'', JStr ''UTC'')]),
                      (''end'', JObj [(''dateTime'', JStr (isoString H t)),
                                      (''timeZone'', JStr ''UTC'')])]))"
      using assms(3,4) p
      by (simp add: format_known outlook_formatter_def andThen_def)
  qed
  from g a o show ?thesis by blast
qed

text \<open>One item per adapter. The google item's title and description come back, its start
  comes back with milliseconds added; the apple item comes back field by field; the
  outlook item's preview comes back as the body.\<close>
theorem denormalize_after_normalize_witness:
  "formatEventForProvider es_host timestamp_config
        \<lparr>id' = JStr ''g1'', title = JStr ''Standup'',
            startTime = Num 1714554000000, endTime = Num 1714554900000,
            description = JStr ''Daily'', sourceCalendar = ''google'',
            timestamp = Num 1714478400000\<rparr>
     = Inr (Payload (JObj
          [(''summary'', JStr ''Standup''),
           (''description'', JStr ''Daily''),
           (''start'', JObj [(''dateTime'', JStr ''2024-05-01T09:00:00.000Z'')]),
           (''end'', JObj [(''dateTime'', JStr ''2024-05-01T09:15:00.000Z'')])]))
   \<and> get google_standup ''start'' = Inr (JObj [(''dateTime'', JStr ''2024-05-01T09:00:00Z'')])
   \<and> formatEventForProvider es_host apple_config
        \<lparr>id' = JStr ''a1'', title = JStr ''Lunch'',
         startTime = Num 1714564800000, endTime = Num 1714568400000,
         description = JStr ''Cafe'', sourceCalendar = ''apple'',
         timestamp = Num 1714478400000\<rparr>
     = Inr (Payload (JObj
          [(''summary'', JStr ''Lunch''),
           (''description'', JStr ''Cafe''),
           (''dtstart'', JStr ''2024-05-01T12:00:00.000Z''),
           (''dtend'', JStr ''2024-05-01T13:00:00.000Z'')]))
   \<and> formatEventForProvider es_host outlook_config
        \<lparr>id' = JStr ''o1'', title = JStr ''Review'',
         startTime = Num 1714554000000, endTime = Num 1714557600000,
         description = JStr ''Agenda attached'',
         sourceCalendar = ''outlook'', timestamp = Num 1714478400000\<rparr>
     = Inr (Payload (JObj
         [(''subject'', JStr ''Review''),
          (''body'', JObj [(''content'', JStr ''Agenda attached''),
                           (''contentType'', JStr ''text'')]),
          (''start'', JObj [(''dateTime'', JStr ''2024-05-01T09:00:00.000Z''),
                            (''timeZone'', JStr ''UTC'')]),
          (''end'', JObj [(''dateTime'', JStr ''2024-05-01T10:00:00.000Z''),
                          (''timeZone'', JStr ''UTC'')])]))"
  using denormalize_after_normalize
    [OF google_single sample_payloadItems(5), of 1714554000000 1714554900000]
    denormalize_after_normalize
    [OF apple_single sample_payloadItems_single(1), of 1714564800000 1714568400000]
    denormalize_after_normalize
    [OF outlook_single sample_payloadItems_single(2), of 1714554000000 1714557600000]
  by (simp add: sample_providers sample_iso sample_iso2 google_standup_def apple_lunch_def
      outlook_review_def)

text \<open>
  C4 as stated fails for the outlook adapter on the description: the item has the
  description under \<open>bodyPreview\<close>, the canonical event preserves it, and the payload
  formatted from that event has no \<open>bodyPreview\<close>.
\<close>
theorem denormalize_description_counterexample:
  "normalizeProviderEvents es_host outlook_config (JObj [(''value'', JArr [outlook_review])])
   = Inr [\<lparr>id' = JStr ''o1'', title = JStr ''Review'',
         startTime = Num 1714554000000, endTime = Num 1714557600000,
         description = JStr ''Agenda attached'',
         sourceCalendar = ''outlook'', timestamp = Num 1714478400000\<rparr>]
   \<and> formatEventForProvider es_host outlook_config
        \<lparr>id' = JStr ''o1'', title = JStr ''Review'',
         startTime = Num 1714554000000, endTime = Num 1714557600000,
         description = JStr ''Agenda attached'',
         sourceCalendar = ''outlook'', timestamp = Num 1714478400000\<rparr>
     = Inr (Payload (JObj
         [(''subject'', JStr ''Review''),
          (''body'', JObj [(''content'', JStr ''Agenda attached''),
                           (''contentType'', JStr ''text'')]),
          (''start'', JObj [(''dateTime'', JStr ''2024-05-01T09:00:00.000Z''),
                            (''timeZone'', JStr ''UTC'')]),
          (''end'', JObj [(''dateTime'', JStr ''2024-05-01T10:00:00.000Z''),
                          (''timeZone'', JStr ''UTC'')])]))
   \<and> get outlook_review ''bodyPreview'' = Inr (JStr ''Agenda attached'')
   \<and> get (JObj
         [(''subject'', JStr ''Review''),
          (''body'', JObj [(''content'', JStr ''Agenda attached''),
                           (''contentType'', JStr ''text'')]),
          (''start'', JObj [(''dateTime'', JStr ''2024-05-01T09:00:00.000Z''),
                            (''timeZone'', JStr ''UTC'')]),
          (''end'', JObj [(''dateTime'', JStr ''2024-05-01T10:00:00.000Z''),
                          (''timeZone'', JStr ''UTC'')])]) ''bodyPreview'' = Inr JUndefined"
  by code_simp

text \<open>
  C7, as the code has it. For a provider tag that has no entry in the tables and names
  no member inherited from \<open>Object.prototype\<close>, the endpoint is
  \<open>config.apiEndpoint\<close> and \<open>formatEventForProvider\<close> returns the event itself, but
  \<open>normalizeProviderEvents\<close> returns the empty list for every payload: the payload is
  not read, so nothing is passed through and nothing is thrown.
\<close>

theorem unknown_provider_fallback:
  assumes "\<not> knownProvider (provider cfg)" and "\<not> inheritedName (provider cfg)"
  shows "getProviderEndpoint cfg = apiEndpoint cfg
       \<and> normalizeProviderEvents H cfg data = Inr []
       \<and> formatEventForProvider H cfg e = Inr (Unformatted e)"
  using assms(1)
  by (simp add: knownProvider_def getProviderEndpoint_def endpoints_def
      normalizeProviderEvents_def normalizers_def formatEventForProvider_def formatters_def)

text \<open>The provider \<open>custom\<close>: its own endpoint, the event unchanged, and no events
  even from the payload \<open>null\<close>.\<close>

theorem unknown_provider_fallback_witness:
  "\<not> knownProvider (provider custom_config)
   \<and> \<not> inheritedName (provider custom_config)
   \<and> getProviderEndpoint custom_config = ''https://calendar.example.org/events''
   \<and> normalizeProviderEvents es_host custom_config JNull = Inr []
   \<and> formatEventForProvider es_host custom_config local_e1 = Inr (Unformatted local_e1)"
proof -
  have u: "\<not> knownProvider (provider custom_config)"
    by (simp add: knownProvider_def sample_providers)
  have i: "\<not> inheritedName (provider custom_config)"
    by (simp add: inheritedName_def inheritedNames_def sample_providers)
  from unknown_provider_fallback [OF u i, of es_host JNull local_e1] u i show ?thesis
    by (simp add: custom_config_def)
qed

text \<open>
  C7 as stated fails on normalization: for the provider \<open>custom\<close> a payload holding
  one event in canonical form normalizes to the empty list, not to that event.
\<close>

theorem unknown_provider_counterexample:
  "\<not> knownProvider (provider custom_config)
   \<and> \<not> inheritedName (provider custom_config)
   \<and> payloadItems (JArr [custom_event]) = Inr (JArr [custom_event])
   \<and> normalizeProviderEvents es_host custom_config (JArr [custom_event]) = Inr []"
  by (simp add: knownProvider_def inheritedName_def inheritedNames_def custom_config_def
      timestamp_config_def payloadItems_def
      js_or_def andThen_def custom_event_def normalizeProviderEvents_def normalizers_def)

section \<open>Properties of fetching\<close>

text \<open>A fetch changes neither the configuration nor anything about timers.\<close>

lemma fetch_keeps:
  assumes "fetchRemoteEvents R H st = Some y"
  shows "config (snd y) = config st \<and> syncInterval (snd y) = syncInterval st
       \<and> timers (snd y) = timers st \<and> nextHandle (snd y) = nextHandle st"
proof (rule fetchRemoteEvents.raw_induct
    [where P = "\<lambda>R H st y. config (snd y) = config st \<and> syncInterval (snd y) = syncInterval st
       \<and> timers (snd y) = timers st \<and> nextHandle (snd y) = nextHandle st", OF _ assms])
  fix f :: "remote \<Rightarrow> host \<Rightarrow> state \<Rightarrow> ((error + CalendarEvent list) \<times> state) option"
  fix R H st Ra
  assume IH: "\<And>R H st y. f R H st = Some y \<Longrightarrow>
      config (snd y) = config st \<and> syncInterval (snd y) = syncInterval st
       \<and> timers (snd y) = timers st \<and> nextHandle (snd y) = nextHandle st"
  assume body: "(case R (requests st) (fetchRequest (config st)) of
        Response data \<Rightarrow>
          Some (normalizeProviderEvents H (config st) data,
                st\<lparr>requests := Suc (requests st)\<rparr>)
      | Failure status \<Rightarrow>
          if status = Some 401
          then f R H (refreshAccessToken (st\<lparr>requests := Suc (requests st)\<rparr>))
          else Some (Inl (AxiosError status), st\<lparr>requests := Suc (requests st)\<rparr>)) = Some Ra"
  show "config (snd Ra) = config st \<and> syncInterval (snd Ra) = syncInterval st
       \<and> timers (snd Ra) = timers st \<and> nextHandle (snd Ra) = nextHandle st"
  proof (cases "R (requests st) (fetchRequest (config st))")
    case (Response data)
    with body show ?thesis by auto
  next
    case (Failure status)
    show ?thesis
    proof (cases "status = Some 401")
      case True
      with Failure body
      have "f R H (refreshAccessToken (st\<lparr>requests := Suc (requests st)\<rparr>)) = Some Ra"
        by simp
      from IH [OF this] show ?thesis by (simp add: refreshAccessToken_def)
    next
      case False
      with Failure body show ?thesis by auto
    qed
  qed
qed

text \<open>After \<open>k\<close> rejections in a row and one other answer, the call has made \<open>k\<close>
  refreshes and \<open>k + 1\<close> requests and ends with that answer.\<close>

lemma fetch_after_401s:
  assumes "\<forall>i<k. R (requests st + i) (fetchRequest (config st)) = Failure (Some 401)"
    and "R (requests st + k) (fetchRequest (config st)) \<noteq> Failure (Some 401)"
  shows "fetchRemoteEvents R H st =
         Some (case R (requests st + k) (fetchRequest (config st)) of
                 Response data \<Rightarrow> normalizeProviderEvents H (config st) data
               | Failure status \<Rightarrow> Inl (AxiosError status),
               st\<lparr>requests := requests st + k + 1, refreshes := refreshes st + k\<rparr>)"
  using assms
proof (induction k arbitrary: st)
  case 0
  then show ?case
    by (subst fetchRemoteEvents.simps) (simp split: response.splits)
next
  case (Suc k)
  let ?st' = "refreshAccessToken (st\<lparr>requests := Suc (requests st)\<rparr>)"
  have c: "config ?st' = config st" and r: "requests ?st' = Suc (requests st)"
    by (simp_all add: refreshAccessToken_def)
  from Suc.prems(1) have first: "R (requests st) (fetchRequest (config st)) = Failure (Some 401)"
    by (metis add.right_neutral zero_less_Suc)
  have rest: "\<forall>i<k. R (requests ?st' + i) (fetchRequest (config ?st')) = Failure (Some 401)"
  proof (intro allI impI)
    fix i assume "i < k"
    then have "Suc i < Suc k" by simp
    with Suc.prems(1) have "R (requests st + Suc i) (fetchRequest (config st)) = Failure (Some 401)"
      by blast
    then show "R (requests ?st' + i) (fetchRequest (config ?st')) = Failure (Some 401)"
      by (simp add: c r)
  qed
  from Suc.prems(2) have last: "R (requests ?st' + k) (fetchRequest (config ?st')) \<noteq> Failure (Some 401)"
    by (simp add: c r)
  have "fetchRemoteEvents R H st = fetchRemoteEvents R H ?st'"
    by (subst fetchRemoteEvents.simps) (simp add: first)
  also note Suc.IH [OF rest last]
  finally show ?case
    by (simp add: refreshAccessToken_def cong: response.case_cong)
qed

text \<open>When every request is rejected, the call does not return.\<close>

lemma fetch_never_returns:
  assumes all: "\<forall>i. R (requests st + i) (fetchRequest (config st)) = Failure (Some 401)"
  shows "fetchRemoteEvents R H st = None"
proof (rule ccontr)
  assume "fetchRemoteEvents R H st \<noteq> None"
  then obtain y where y: "fetchRemoteEvents R H st = Some y" by auto
  have "\<not> (\<forall>i. R (requests st + i) (fetchRequest (config st)) = Failure (Some 401))"
  proof (rule fetchRemoteEvents.raw_induct
      [where P = "\<lambda>R H st y. \<not> (\<forall>i. R (requests st + i) (fetchRequest (config st)) = Failure (Some 401))",
        OF _ y])
    fix f :: "remote \<Rightarrow> host \<Rightarrow> state \<Rightarrow> ((error + CalendarEvent list) \<times> state) option"
    fix R H st Ra
    assume IH: "\<And>R H st y. f R H st = Some y \<Longrightarrow>
        \<not> (\<forall>i. R (requests st + i) (fetchRequest (config st)) = Failure (Some 401))"
    assume body: "(case R (requests st) (fetchRequest (config st)) of
        Response data \<Rightarrow>
          Some (normalizeProviderEvents H (config st) data,
                st\<lparr>requests := Suc (requests st)\<rparr>)
      | Failure status \<Rightarrow>
          if status = Some 401
          then f R H (refreshAccessToken (st\<lparr>requests := Suc (requests st)\<rparr>))
          else Some (Inl (AxiosError status), st\<lparr>requests := Suc (requests st)\<rparr>)) = Some Ra"
    show "\<not> (\<forall>i. R (requests st + i) (fetchRequest (config st)) = Failure (Some 401))"
    proof
      assume a: "\<forall>i. R (requests st + i) (fetchRequest (config st)) = Failure (Some 401)"
      let ?st' = "refreshAccessToken (st\<lparr>requests := Suc (requests st)\<rparr>)"
      from a have "R (requests st) (fetchRequest (config st)) = Failure (Some 401)"
        by (metis add.right_neutral)
      with body have "f R H ?st' = Some Ra" by simp
      from IH [OF this] obtain i where
        "R (requests ?st' + i) (fetchRequest (config ?st')) \<noteq> Failure (Some 401)" by blast
      then have "R (requests st + Suc i) (fetchRequest (config st)) \<noteq> Failure (Some 401)"
        by (simp add: refreshAccessToken_def)
      with a show False by blast
    qed
  qed
  with all show False by blast
qed

text \<open>
  C2, as the code has it. \<open>fetchRemoteEvents\<close> answers every 401 with one token refresh
  followed by one more fetch, without a bound: when the first \<open>k\<close> requests are rejected
  with 401 and the next one is not, the call makes exactly \<open>k\<close> refreshes and \<open>k + 1\<close>
  requests and ends with the result of that last answer (the normalized events, or the
  error propagated); when every request is rejected with 401, it never returns.
\<close>

theorem fetchRemoteEvents_refreshes_on_every_401:
  "((\<forall>i<k. R (requests st + i) (fetchRequest (config st)) = Failure (Some 401))
     \<and> R (requests st + k) (fetchRequest (config st)) \<noteq> Failure (Some 401)
    \<longrightarrow> fetchRemoteEvents R H st =
         Some (case R (requests st + k) (fetchRequest (config st)) of
                 Response data \<Rightarrow> normalizeProviderEvents H (config st) data
               | Failure status \<Rightarrow> Inl (AxiosError status),
               st\<lparr>requests := requests st + k + 1, refreshes := refreshes st + k\<rparr>))
   \<and> ((\<forall>i. R (requests st + i) (fetchRequest (config st)) = Failure (Some 401))
    \<longrightarrow> fetchRemoteEvents R H st = None)"
  using fetch_after_401s [of k R st H] fetch_never_returns [of R st H] by blast

text \<open>One rejection, then a 503: one refresh, two requests, the 503 propagated. And a
  token rejected forever: no result.\<close>

theorem fetchRemoteEvents_refreshes_on_every_401_witness:
  "fetchRemoteEvents expired_then_down es_host (new_service timestamp_config)
       = Some (Inl (AxiosError (Some 503)),
               (new_service timestamp_config)\<lparr>requests := 2, refreshes := 1\<rparr>)
   \<and> fetchRemoteEvents always_expired es_host (new_service timestamp_config) = None"
  using fetchRemoteEvents_refreshes_on_every_401
      [of 1 expired_then_down "new_service timestamp_config" es_host]
    fetchRemoteEvents_refreshes_on_every_401
      [of 0 always_expired "new_service timestamp_config" es_host]
  by (simp add: expired_then_down_def always_expired_def new_service_def)

text \<open>
  C2 as stated fails when the retried fetch is rejected again: the second 401 does not
  propagate; the service refreshes a second time, sends a third request and returns its
  events.
\<close>

theorem fetchRemoteEvents_second_401_counterexample:
  "expired_twice 0 (fetchRequest timestamp_config) = Failure (Some 401)
   \<and> expired_twice 1 (fetchRequest timestamp_config) = Failure (Some 401)
   \<and> fetchRemoteEvents expired_twice es_host (new_service timestamp_config)
       = Some (Inr [], (new_service timestamp_config)\<lparr>requests := 3, refreshes := 2\<rparr>)"
  by (simp add: fetchRemoteEvents.simps expired_twice_def new_service_def refreshAccessToken_def
      normalizeProviderEvents_def normalizers_def timestamp_config_def payloadItems_def
      js_or_def andThen_def google_normalizer_def js_map_def numeral_2_eq_2 numeral_3_eq_3)

section \<open>Properties of polling\<close>

text \<open>Each method keeps \<open>timers_owned\<close>; a fresh instance has it.\<close>

lemma startPolling_timers:
  "timers_owned st \<Longrightarrow> timers (startPolling n st) = [nextHandle st \<mapsto> n]"
  by (cases "syncInterval st")
     (auto simp: timers_owned_def startPolling_def setInterval_def clearInterval_def
        fun_eq_iff domIff)

lemma startPolling_owned: "timers_owned st \<Longrightarrow> timers_owned (startPolling n st)"
  by (cases "syncInterval st")
     (auto simp: timers_owned_def startPolling_def setInterval_def clearInterval_def)

lemma stopSync_owned: "timers_owned st \<Longrightarrow> timers_owned (stopSync st)"
  by (cases "syncInterval st")
     (auto simp: timers_owned_def stopSync_def clearInterval_def)

lemma fetch_owned:
  "fetchRemoteEvents R H st = Some y \<Longrightarrow> timers_owned st \<Longrightarrow> timers_owned (snd y)"
  using fetch_keeps [of R H st y] by (simp add: timers_owned_def)

lemma step_owned: "step R H c st = Some st' \<Longrightarrow> timers_owned st \<Longrightarrow> timers_owned st'"
proof (cases c)
  case InitializeSync
  assume a: "step R H c st = Some st'" and o: "timers_owned st"
  show ?thesis
  proof (cases "fetchRemoteEvents R H st")
    case None
    with a InitializeSync show ?thesis by (simp add: initializeSync_def)
  next
    case (Some y)
    obtain res st1 where y: "y = (res, st1)" by (cases y)
    from fetch_owned [OF Some o] y have o1: "timers_owned st1" by simp
    show ?thesis
    proof (cases res)
      case (Inl e)
      with a InitializeSync Some y o1 show ?thesis by (simp add: initializeSync_def)
    next
      case (Inr evs)
      with a InitializeSync Some y have "st' = startPolling 30000 st1"
        by (simp add: initializeSync_def)
      with o1 show ?thesis by (simp add: startPolling_owned)
    qed
  qed
next
  case PollTick
  assume a: "step R H c st = Some st'" and o: "timers_owned st"
  from a PollTick obtain y where "fetchRemoteEvents R H st = Some y" "st' = snd y"
    by (auto simp: pollTick_def)
  with fetch_owned [OF _ o] show ?thesis by simp
next
  case (StartPolling n)
  assume "step R H c st = Some st'" "timers_owned st"
  with StartPolling show ?thesis by (auto simp: startPolling_owned)
next
  case StopSync
  assume "step R H c st = Some st'" "timers_owned st"
  with StopSync show ?thesis by (auto simp: stopSync_owned)
qed

lemma run_owned: "run R H cs st = Some st' \<Longrightarrow> timers_owned st \<Longrightarrow> timers_owned st'"
proof (induction cs arbitrary: st)
  case Nil
  then show ?case by simp
next
  case (Cons c cs)
  then show ?case by (auto split: option.splits dest: step_owned)
qed

lemma new_service_owned: "timers_owned (new_service cfg)"
  by (simp add: timers_owned_def new_service_def)

lemma stopSync_clears:
  "timers_owned st \<Longrightarrow> syncInterval (stopSync st) = None \<and> timers (stopSync st) = Map.empty"
  by (cases "syncInterval st")
     (auto simp: timers_owned_def stopSync_def clearInterval_def fun_eq_iff domIff)

lemma stopSync_idem: "stopSync (stopSync st) = stopSync st"
  by (cases "syncInterval st") (simp_all add: stopSync_def clearInterval_def)

text \<open>
  C10. In every state a fresh instance reaches by calls of \<open>initializeSync\<close>,
  \<open>startPolling\<close>, \<open>stopSync\<close> and timer ticks, in any order: at most one timer runs,
  and it is the one held in \<open>syncInterval\<close>; \<open>startPolling\<close> leaves exactly the timer it
  installs, whatever ran before; after \<open>stopSync\<close> the handle is \<open>null\<close> and no timer
  runs; and a second \<open>stopSync\<close> changes nothing.
\<close>

theorem at_most_one_polling_timer:
  assumes "run R H calls (new_service cfg) = Some st"
  shows "card (dom (timers st)) \<le> 1
       \<and> dom (timers st) = set_option (syncInterval st)
       \<and> timers (startPolling n st) = [nextHandle st \<mapsto> n]
       \<and> syncInterval (startPolling n st) = Some (nextHandle st)
       \<and> syncInterval (stopSync st) = None
       \<and> timers (stopSync st) = Map.empty
       \<and> stopSync (stopSync st) = stopSync st"
proof -
  from run_owned [OF assms new_service_owned] have o: "timers_owned st" .
  then have d: "dom (timers st) = set_option (syncInterval st)"
    by (simp add: timers_owned_def)
  have "card (dom (timers st)) \<le> 1"
    unfolding d by (cases "syncInterval st") simp_all
  moreover have "syncInterval (startPolling n st) = Some (nextHandle st)"
    by (cases "syncInterval st") (simp_all add: startPolling_def setInterval_def clearInterval_def)
  ultimately show ?thesis
    using d startPolling_timers [OF o] stopSync_clears [OF o] stopSync_idem by simp
qed

lemma run_example:
  "run empty_calendar es_host
     [InitializeSync, StartPolling 1000, PollTick, StopSync, StopSync, InitializeSync]
     (new_service timestamp_config)
   = Some \<lparr>config = timestamp_config, syncInterval = Some 2, timers = [2 \<mapsto> 30000],
           nextHandle = 3, requests = 3, refreshes = 0\<rparr>"
  by (simp add: initializeSync_def pollTick_def fetchRemoteEvents.simps empty_calendar_def
      new_service_def startPolling_def stopSync_def setInterval_def clearInterval_def
      normalizeProviderEvents_def normalizers_def timestamp_config_def payloadItems_def
      js_or_def andThen_def google_normalizer_def js_map_def numeral_2_eq_2 numeral_3_eq_3)

text \<open>A run that starts polling three times and stops twice ends with the one timer of
  the last \<open>initializeSync\<close>; stopping then leaves none.\<close>

theorem at_most_one_polling_timer_witness:
  "run empty_calendar es_host
     [InitializeSync, StartPolling 1000, PollTick, StopSync, StopSync, InitializeSync]
     (new_service timestamp_config)
   = Some \<lparr>config = timestamp_config, syncInterval = Some 2, timers = [2 \<mapsto> 30000],
           nextHandle = 3, requests = 3, refreshes = 0\<rparr>
   \<and> card (dom [2 \<mapsto> 30000 :: nat]) \<le> (1 :: nat)
   \<and> stopSync \<lparr>config = timestamp_config, syncInterval = Some 2, timers = [2 \<mapsto> 30000],
           nextHandle = 3, requests = 3, refreshes = 0\<rparr>
     = \<lparr>config = timestamp_config, syncInterval = None, timers = Map.empty,
           nextHandle = 3, requests = 3, refreshes = 0\<rparr>"
  using at_most_one_polling_timer [OF run_example, of 5] run_example
  by (simp add: stopSync_def clearInterval_def)

section \<open>Properties of the realtime service and the sync queue\<close>

text \<open>On a service without a socket \<open>sendOperations\<close> does nothing.\<close>

lemma sendOperations_disconnected:
  "socket s = None \<Longrightarrow> sendOperations operations s = s"
  by (simp add: sendOperations_def)

text \<open>
  C8. While the realtime channel has no socket, operations submitted locally and passed
  to \<open>sendOperations\<close> stay in the Sync Queue, after the operations already waiting
  and in the order submitted; the call leaves the service as it was, so nothing is
  emitted; and when the channel is connected again the whole queue, these operations
  included, is emitted in that order.
\<close>

theorem operations_held_while_disconnected:
  assumes "socket (realtime e) = None"
  shows "syncQueue (submitOperations operations e) = syncQueue e @ operations
       \<and> realtime (submitOperations operations e) = realtime e
       \<and> sent (realtime (reconnectChannel (submitOperations operations e)))
           = sent (realtime e) @ [Operations (syncQueue e @ operations)]"
  using assms
  by (simp add: submitOperations_def reconnectChannel_def sendOperations_def connect_def
      emit_def)

text \<open>An operation submitted to an engine that was never connected is in the queue,
  nothing has been emitted, and reconnecting emits it.\<close>

theorem operations_held_while_disconnected_witness:
  "socket (realtime offline_engine) = None
   \<and> syncQueue (submitOperations [(1, local_e1)] offline_engine) = [(1, local_e1)]
   \<and> sent (realtime (submitOperations [(1, local_e1)] offline_engine)) = []
   \<and> sent (realtime (reconnectChannel (submitOperations [(1, local_e1)] offline_engine)))
       = [Operations [(1, local_e1)]]"
proof -
  have n: "socket (realtime offline_engine) = None"
    by (simp add: offline_engine_def offline_service_def new_realtime_def)
  from operations_held_while_disconnected [OF n, of "[(1, local_e1)]"] n show ?thesis
    by (simp add: offline_engine_def offline_service_def new_realtime_def)
qed

end
